theory Spec2Isabelle
  imports Main "HOL-Library.Word"
begin

section \<open>The generated name table of \<open>discoPingPurpose\<close>\<close>

text \<open>
  The stringer output for \<open>discoPingPurpose\<close> (package magicsock) consists of a
  compile-time guard \<open>func _()\<close>, the constant \<open>_discoPingPurpose_name\<close>, the
  package-level variable \<open>_discoPingPurpose_index\<close> and the method \<open>String\<close>.
  Isabelle names cannot start with an underscore, so the leading underscore is dropped.

  The type declaration \<open>type discoPingPurpose int\<close> lives in another file of the
  package. \<open>String\<close> compares its receiver with \<open>0\<close> and converts it with
  \<open>int64(i)\<close>, so the type is a signed integer type; it is taken as Go's \<open>int\<close> on
  a 64-bit platform: a 64-bit word read in two's complement.
\<close>

type_synonym discoPingPurpose = "64 word"

text \<open>A failed run-time bounds check of Go is a value of the model.\<close>

datatype panic = IndexOutOfRange | SliceBoundsOutOfRange

subsection \<open>The compile-time guard\<close>

text \<open>
  \<open>var x [1]struct{}\<close> followed by \<open>_ = x[pingDiscovery-0]\<close>: indexing an array with
  a constant is accepted by the compiler only when the constant is within the array.
  The three constants are declared outside this file, so they are parameters here;
  constant expressions are evaluated exactly, hence \<open>int\<close>.
\<close>

definition const_index_ok :: "nat \<Rightarrow> int \<Rightarrow> bool" where
  "const_index_ok len k = (0 \<le> k \<and> k < int len)"

definition stringer_guard :: "int \<Rightarrow> int \<Rightarrow> int \<Rightarrow> bool" where
  "stringer_guard pingDiscovery pingHeartbeat pingCLI =
     (const_index_ok 1 (pingDiscovery - 0) \<and>
      const_index_ok 1 (pingHeartbeat - 1) \<and>
      const_index_ok 1 (pingCLI - 2))"

subsection \<open>The name table\<close>

definition discoPingPurpose_name :: string where
  "discoPingPurpose_name = ''DiscoveryHeartbeatCLI''"

text \<open>
  \<open>_discoPingPurpose_index\<close> is declared with \<open>var\<close>: it is program state. The record
  is extensible, its \<open>more\<close> part stands for the rest of the program's state.
\<close>

record globals =
  discoPingPurpose_index :: "8 word list"

definition init_globals :: globals where
  "init_globals = \<lparr>discoPingPurpose_index = [0, 9, 18, 21]\<rparr>"

subsection \<open>Indexing, slicing and \<open>strconv.FormatInt\<close>\<close>

definition index_at :: "'a list \<Rightarrow> int \<Rightarrow> panic + 'a" where
  "index_at xs k =
     (if 0 \<le> k \<and> k < int (length xs) then Inr (xs ! nat k) else Inl IndexOutOfRange)"

definition slice :: "string \<Rightarrow> nat \<Rightarrow> nat \<Rightarrow> panic + string" where
  "slice s lo hi =
     (if lo \<le> hi \<and> hi \<le> length s then Inr (take (hi - lo) (drop lo s))
      else Inl SliceBoundsOutOfRange)"

definition digit_char :: "nat \<Rightarrow> char" where
  "digit_char d = char_of (48 + d)"

fun digits10 :: "nat \<Rightarrow> string" where
  "digits10 n =
     (if n < 10 then [digit_char n] else digits10 (n div 10) @ [digit_char (n mod 10)])"

declare digits10.simps [simp del]

text \<open>\<open>strconv.FormatInt(v, 10)\<close>: a minus sign for a negative value, then the digits.\<close>

definition FormatInt :: "int \<Rightarrow> string" where
  "FormatInt v = (if v < 0 then CHR ''-'' # digits10 (nat (- v)) else digits10 (nat v))"

text \<open>Reading a decimal numeral back, to say that \<open>FormatInt\<close> is decimal notation.\<close>

definition digit_val :: "char \<Rightarrow> nat" where
  "digit_val c = of_char c - 48"

definition parse_digits :: "string \<Rightarrow> nat" where
  "parse_digits s = foldl (\<lambda>a c. 10 * a + digit_val c) 0 s"

definition ParseInt :: "string \<Rightarrow> int" where
  "ParseInt s =
     (case s of
        [] \<Rightarrow> 0
      | c # cs \<Rightarrow> if c = CHR ''-'' then - int (parse_digits cs) else int (parse_digits s))"

subsection \<open>\<open>func (i discoPingPurpose) String() string\<close>\<close>

text \<open>
  The method reads the index table, so it takes the program state and returns it.
  \<open>len(_discoPingPurpose_index)\<close> is the number of elements of the array. The two
  index expressions of the slice are evaluated left to right, each with its bounds
  check, then the slice bounds are checked.
\<close>

definition String :: "'a globals_scheme \<Rightarrow> discoPingPurpose \<Rightarrow> (panic + string) \<times> 'a globals_scheme" where
  "String g i =
     (if i <s 0 \<or> word_of_int (int (length (discoPingPurpose_index g)) - 1) \<le>s i
      then (Inr (''discoPingPurpose('' @ FormatInt (sint i) @ '')''), g)
      else
        (case index_at (discoPingPurpose_index g) (sint i) of
           Inl e \<Rightarrow> (Inl e, g)
         | Inr lo \<Rightarrow>
             (case index_at (discoPingPurpose_index g) (sint (i + 1)) of
                Inl e \<Rightarrow> (Inl e, g)
              | Inr hi \<Rightarrow> (slice discoPingPurpose_name (unat lo) (unat hi), g))))"

section \<open>The c2n HTTP handler of \<open>ipnlocal\<close>\<close>

subsection \<open>Requests and response writers\<close>

text \<open>
  Of an \<open>*http.Request\<close> the handler reads the method, \<open>URL.Path\<close>, form values and
  the body. The body is a stream: \<open>Body\<close> holds the bytes it delivers and \<open>BodyErr\<close>
  the error that ends it, \<open>None\<close> for a clean end of file. \<open>io.ReadAll\<close> returns both.
\<close>

record Request =
  Method :: string
  URL_Path :: string
  Body :: string
  BodyErr :: "string option"
  FormValue :: "string \<Rightarrow> string"

definition ReadAll :: "Request \<Rightarrow> string \<times> string option" where
  "ReadAll r = (Body r, BodyErr r)"

text \<open>The fields of \<open>tailcfg.C2NUpdateResponse\<close> that the handler sets.\<close>

record C2NUpdateResponse =
  Enabled :: bool
  Supported :: bool
  Started :: bool
  Err :: string

text \<open>
  What is written to a response: raw bytes, or the JSON encoding of a value. The types
  of the preferences view (\<open>'p\<close>) and of the SSH usernames response (\<open>'u\<close>) are
  declared elsewhere and are parameters; their encodings are not spelled out.
\<close>

datatype ('p, 'u) json_value =
    JPrefs 'p
  | JComponentLogging string
  | JSSHUsernames 'u
  | JUpdate C2NUpdateResponse

datatype ('p, 'u) chunk = Bytes string | JSON "('p, 'u) json_value"

text \<open>
  An \<open>http.ResponseWriter\<close>, as far as a handler acts on it:
  \<^item> \<open>Header\<close> is the header map the handler sets;
  \<^item> \<open>WroteHeader\<close> is the status once it is written, with the header map as the
    handler had set it by then (changes made to the map afterwards are not sent);
  \<^item> \<open>Sniffed\<close> is the written data from whose initial 512 bytes the
    \<open>Content-Type\<close> of the response is detected (\<open>http.DetectContentType\<close>), when the
    handler had set none, and \<open>None\<close> otherwise;
  \<^item> \<open>Written\<close> is the data the handler has passed to \<open>Write\<close>, in order.

  Headers that the server adds on its own account, such as \<open>Date\<close> and
  \<open>Content-Length\<close>, are not part of the model.
\<close>

record ('p, 'u) ResponseWriter =
  Header :: "string \<rightharpoonup> string"
  WroteHeader :: "(nat \<times> (string \<rightharpoonup> string)) option"
  Sniffed :: "('p, 'u) chunk list option"
  Written :: "('p, 'u) chunk list"

definition NewResponseWriter :: "('p, 'u) ResponseWriter" where
  "NewResponseWriter =
     \<lparr>Header = Map.empty, WroteHeader = None, Sniffed = None, Written = []\<rparr>"

definition Header_Set ::
  "('p, 'u) ResponseWriter \<Rightarrow> string \<Rightarrow> string \<Rightarrow> ('p, 'u) ResponseWriter" where
  "Header_Set w k v = w\<lparr>Header := (Header w)(k \<mapsto> v)\<rparr>"

text \<open>A second \<open>WriteHeader\<close> is ignored.\<close>

definition WriteHeader :: "('p, 'u) ResponseWriter \<Rightarrow> nat \<Rightarrow> ('p, 'u) ResponseWriter" where
  "WriteHeader w code =
     (case WroteHeader w of
        None \<Rightarrow> w\<lparr>WroteHeader := Some (code, Header w)\<rparr>
      | Some _ \<Rightarrow> w)"

text \<open>
  \<open>Write\<close>: if the status is not written yet, it is written as 200 first; if the
  header then sent has no \<open>Content-Type\<close> line, the response gets a \<open>Content-Type\<close>
  detected from the initial 512 bytes of the written data.
\<close>

definition Write :: "('p, 'u) ResponseWriter \<Rightarrow> ('p, 'u) chunk \<Rightarrow> ('p, 'u) ResponseWriter" where
  "Write w c =
     (let w' = WriteHeader w 200;
          body = Written w' @ [c];
          declared = (case WroteHeader w' of
                        None \<Rightarrow> False
                      | Some (code, h) \<Rightarrow> h ''Content-Type'' \<noteq> None)
      in w'\<lparr>Sniffed := (if declared then None else Some body), Written := body\<rparr>)"

definition newline :: string where
  "newline = [CHR 0x0A]"

text \<open>
  \<open>http.Error\<close>: two headers, the status, then the message and a newline
  (\<open>fmt.Fprintln\<close>).
\<close>

definition http_Error ::
  "('p, 'u) ResponseWriter \<Rightarrow> string \<Rightarrow> nat \<Rightarrow> ('p, 'u) ResponseWriter" where
  "http_Error w msg code =
     (let w1 = Header_Set w ''Content-Type'' ''text/plain; charset=utf-8'';
          w2 = Header_Set w1 ''X-Content-Type-Options'' ''nosniff'';
          w3 = WriteHeader w2 code
      in Write w3 (Bytes (msg @ newline)))"

text \<open>The closure \<open>writeJSON\<close> of \<open>handleC2N\<close>.\<close>

definition writeJSON ::
  "('p, 'u) ResponseWriter \<Rightarrow> ('p, 'u) json_value \<Rightarrow> ('p, 'u) ResponseWriter" where
  "writeJSON w v = Write (Header_Set w ''Content-Type'' ''application/json'') (JSON v)"

subsection \<open>The backend and the platform\<close>

text \<open>
  The calls the handler makes that act outside the response, in the order they are
  made. \<open>'t\<close> is the type of points in time.
\<close>

datatype 't event =
    CallTryFlushLogs
  | CallSetComponentDebugLogging string 't
  | CallLogHeap
  | CallSockstatFlush
  | CallOutput string "string list"
  | CallStart string "string list"
  | CallWait string "string list"

text \<open>
  The methods and fields of \<open>*LocalBackend\<close> that the handler uses are defined in
  other files: what they return is a parameter. An error is its message.
  \<open>sockstatLogger\<close> is \<open>None\<close> for a nil logger, else the logger's \<open>LogID\<close> as
  \<open>%s\<close> prints it. \<open>'q\<close> is the type of the SSH usernames request.
\<close>

record ('p, 'q, 'u, 't) LocalBackend =
  TryFlushLogs :: bool
  Prefs :: 'p
  clock_Now :: 't
  SetComponentDebugLogging :: "string \<Rightarrow> 't \<Rightarrow> string option"
  getSSHUsernames :: "'q \<Rightarrow> string + 'u"
  sockstatLogger :: "string option"

text \<open>
  Package-level variables, other packages, the standard library and the operating
  system, as far as the handler consults them. \<open>Atoi\<close> gives the number that
  \<open>strconv.Atoi\<close> returns (the handler drops its error); \<open>Decode_Request\<close> is
  \<open>json.NewDecoder(r.Body).Decode\<close> into a \<open>tailcfg.C2NSSHUsernamesRequest\<close> and
  \<open>zero_Request\<close> the zero value of that type; \<open>NewUpdater\<close> is the error of
  \<open>clientupdate.NewUpdater\<close>; \<open>Unmarshal_Long\<close> is \<open>json.Unmarshal\<close> into the struct
  with the one field \<open>Long\<close>; \<open>Stat_IsRegular\<close> says that \<open>os.Stat\<close> succeeds and
  reports a regular file.
\<close>

record ('p, 'q, 'u, 't) Platform =
  c2nLogHeap :: "(('p, 'u) ResponseWriter \<Rightarrow> Request \<Rightarrow> ('p, 'u) ResponseWriter) option"
  ScrubbedGoroutineDump :: string
  WritePrometheusExpositionFormat :: string
  sockstats_DebugInfo :: string
  Atoi :: "string \<Rightarrow> 64 word"
  time_Add :: "'t \<Rightarrow> 64 word \<Rightarrow> 't"
  Decode_Request :: "Request \<Rightarrow> string + 'q"
  zero_Request :: 'q
  AllowsRemoteUpdate :: bool
  NewUpdater :: "string option"
  IsMacSysExt :: bool
  os_Executable :: "string + string"
  GOOS :: string
  Stat_IsRegular :: "string \<Rightarrow> bool"
  filepath_Dir :: "string \<Rightarrow> string"
  filepath_Join :: "string \<Rightarrow> string \<Rightarrow> string"
  exec_Output :: "string \<Rightarrow> string list \<Rightarrow> string + string"
  Unmarshal_Long :: "string \<Rightarrow> string + string"
  version_Long :: string
  cmd_Start :: "string \<Rightarrow> string list \<Rightarrow> string option"

subsection \<open>\<open>findCmdTailscale\<close>\<close>

definition findCmdTailscale :: "('p, 'q, 'u, 't) Platform \<Rightarrow> string + string" where
  "findCmdTailscale sys =
     (case os_Executable sys of
        Inl err \<Rightarrow> Inl err
      | Inr self \<Rightarrow>
          if GOOS sys = ''linux'' then
            (if self = ''/usr/sbin/tailscaled'' then Inr ''/usr/bin/tailscale''
             else Inl ''tailscale not found in expected place'')
          else if GOOS sys = ''windows'' then
            (let dir = filepath_Dir sys self;
                 ts = filepath_Join sys dir ''tailscale.exe''
             in if Stat_IsRegular sys ts then Inr ts
                else Inl ''tailscale.exe not found in expected place'')
          else Inl (''unsupported OS '' @ GOOS sys))"

subsection \<open>\<open>handleC2NUpdate\<close>\<close>

text \<open>
  The method does not use its receiver. The function registered with \<open>defer\<close> after
  \<open>res\<close> is built runs on every later return and encodes \<open>res\<close> as it is then; the
  bad-method return comes before it is registered. \<open>defer cmd.Wait()\<close> runs first.
  \<open>update_steps\<close> is the body between the two: it returns the final \<open>res\<close> and the
  calls made.
\<close>

definition update_steps ::
  "('p, 'q, 'u, 't) Platform \<Rightarrow> Request \<Rightarrow> C2NUpdateResponse \<Rightarrow>
     C2NUpdateResponse \<times> 't event list" where
  "update_steps sys r res =
     (let version_args = [''version'', ''--json''];
          update_args = [''update'', ''--yes'']
      in
        if Method r = ''GET'' then (res, [])
        else if \<not> Enabled res then (res\<lparr>Err := ''not enabled''\<rparr>, [])
        else if \<not> Supported res then (res\<lparr>Err := ''not supported''\<rparr>, [])
        else
          (case findCmdTailscale sys of
             Inl err \<Rightarrow>
               (res\<lparr>Err := ''failed to find cmd/tailscale binary: '' @ err\<rparr>, [])
           | Inr cmdTS \<Rightarrow>
               (case exec_Output sys cmdTS version_args of
                  Inl err \<Rightarrow>
                    (res\<lparr>Err := ''failed to find cmd/tailscale binary: '' @ err\<rparr>,
                     [CallOutput cmdTS version_args])
                | Inr out \<Rightarrow>
                    (case Unmarshal_Long sys out of
                       Inl err \<Rightarrow>
                         (res\<lparr>Err := ''invalid JSON from cmd/tailscale version --json''\<rparr>,
                          [CallOutput cmdTS version_args])
                     | Inr long \<Rightarrow>
                         if long \<noteq> version_Long sys then
                           (res\<lparr>Err := ''cmd/tailscale version mismatch''\<rparr>,
                            [CallOutput cmdTS version_args])
                         else
                           (case cmd_Start sys cmdTS update_args of
                              Some err \<Rightarrow>
                                (res\<lparr>Err := ''failed to start cmd/tailscale update: '' @ err\<rparr>,
                                 [CallOutput cmdTS version_args, CallStart cmdTS update_args])
                            | None \<Rightarrow>
                                (res\<lparr>Started := True\<rparr>,
                                 [CallOutput cmdTS version_args, CallStart cmdTS update_args,
                                  CallWait cmdTS update_args]))))))"

definition handleC2NUpdate ::
  "('p, 'q, 'u, 't) Platform \<Rightarrow> Request \<Rightarrow> ('p, 'u) ResponseWriter \<Rightarrow>
     ('p, 'u) ResponseWriter \<times> 't event list" where
  "handleC2NUpdate sys r w =
     (if Method r \<noteq> ''GET'' \<and> Method r \<noteq> ''POST''
      then (http_Error w ''bad method'' 405, [])
      else
        let res = \<lparr>Enabled = AllowsRemoteUpdate sys,
                   Supported = (NewUpdater sys = None \<and> \<not> IsMacSysExt sys),
                   Started = False, Err = []\<rparr>;
            (res', evs) = update_steps sys r res
        in (Write (Header_Set w ''Content-Type'' ''application/json'') (JSON (JUpdate res')),
            evs))"

subsection \<open>\<open>handleC2N\<close>\<close>

text \<open>\<open>time.Duration(secs) * time.Second\<close> is a product of 64-bit integers.\<close>

definition time_Second :: "64 word" where
  "time_Second = 1000000000"

definition handleC2N ::
  "('p, 'q, 'u, 't) LocalBackend \<Rightarrow> ('p, 'q, 'u, 't) Platform \<Rightarrow> Request \<Rightarrow>
     ('p, 'u) ResponseWriter \<Rightarrow> ('p, 'u) ResponseWriter \<times> 't event list" where
  "handleC2N b sys r w =
     (if URL_Path r = ''/echo'' then
        (let (body, _) = ReadAll r in (Write w (Bytes body), []))
      else if URL_Path r = ''/update'' then handleC2NUpdate sys r w
      else if URL_Path r = ''/logtail/flush'' then
        (if Method r \<noteq> ''POST'' then (http_Error w ''bad method'' 405, [])
         else if TryFlushLogs b then (WriteHeader w 204, [CallTryFlushLogs])
         else (http_Error w ''no log flusher wired up'' 500, [CallTryFlushLogs]))
      else if URL_Path r = ''/debug/goroutines'' then
        (Write (Header_Set w ''Content-Type'' ''text/plain'')
           (Bytes (ScrubbedGoroutineDump sys)), [])
      else if URL_Path r = ''/debug/prefs'' then (writeJSON w (JPrefs (Prefs b)), [])
      else if URL_Path r = ''/debug/metrics'' then
        (Write (Header_Set w ''Content-Type'' ''text/plain'')
           (Bytes (WritePrometheusExpositionFormat sys)), [])
      else if URL_Path r = ''/debug/component-logging'' then
        (let component = FormValue r ''component'';
             secs = Atoi sys (FormValue r ''secs'');
             secs = (if secs = 0 then secs - 1 else secs);
             until = time_Add sys (clock_Now b) (secs * time_Second);
             err = SetComponentDebugLogging b component until;
             res = (case err of None \<Rightarrow> [] | Some e \<Rightarrow> e)
         in (writeJSON w (JComponentLogging res),
             [CallSetComponentDebugLogging component until]))
      else if URL_Path r = ''/debug/logheap'' then
        (case c2nLogHeap sys of
           Some f \<Rightarrow> (f w r, [CallLogHeap])
         | None \<Rightarrow> (http_Error w ''not implemented'' 501, []))
      else if URL_Path r = ''/ssh/usernames'' then
        (case (if Method r = ''POST'' then Decode_Request sys r else Inr (zero_Request sys)) of
           Inl err \<Rightarrow> (http_Error w err 400, [])
         | Inr req \<Rightarrow>
             (case getSSHUsernames b req of
                Inl err \<Rightarrow> (http_Error w err 500, [])
              | Inr res \<Rightarrow> (writeJSON w (JSSHUsernames res), [])))
      else if URL_Path r = ''/sockstats'' then
        (if Method r \<noteq> ''POST'' then (http_Error w ''bad method'' 405, [])
         else
           let w1 = Header_Set w ''Content-Type'' ''text/plain'' in
           (case sockstatLogger b of
              None \<Rightarrow> (http_Error w1 ''no sockstatLogger'' 500, [])
            | Some logid \<Rightarrow>
                (Write (Write w1 (Bytes (''logid: '' @ logid @ newline)))
                   (Bytes (''debug info: '' @ sockstats_DebugInfo sys @ newline)),
                 [CallSockstatFlush])))
      else (http_Error w ''unknown c2n path'' 400, []))"

subsection \<open>Concrete inputs\<close>

text \<open>
  A Linux daemon installed as \<open>/usr/sbin/tailscaled\<close> with remote update enabled, whose
  \<open>tailscale\<close> binary reports the daemon's own version, and requests to it. They
  instantiate the theorems below.
\<close>

definition example_backend :: "(unit, unit, string list, nat) LocalBackend" where
  "example_backend =
     \<lparr>TryFlushLogs = True, Prefs = (), clock_Now = 0,
      SetComponentDebugLogging = (\<lambda>component until. None),
      getSSHUsernames = (\<lambda>req. Inr [''root'']),
      sockstatLogger = None\<rparr>"

definition example_platform :: "(unit, unit, string list, nat) Platform" where
  "example_platform =
     \<lparr>c2nLogHeap = None,
      ScrubbedGoroutineDump = ''goroutine 1'',
      WritePrometheusExpositionFormat = ''# TYPE x counter'',
      sockstats_DebugInfo = [],
      Atoi = (\<lambda>s. 0),
      time_Add = (\<lambda>t d. t + unat d),
      Decode_Request = (\<lambda>r. Inr ()),
      zero_Request = (),
      AllowsRemoteUpdate = True,
      NewUpdater = None,
      IsMacSysExt = False,
      os_Executable = Inr ''/usr/sbin/tailscaled'',
      GOOS = ''linux'',
      Stat_IsRegular = (\<lambda>p. False),
      filepath_Dir = (\<lambda>p. p),
      filepath_Join = (\<lambda>d f. d @ ''/'' @ f),
      exec_Output = (\<lambda>cmd args. Inr ''1.50.0''),
      Unmarshal_Long = (\<lambda>out. Inr out),
      version_Long = ''1.50.0'',
      cmd_Start = (\<lambda>cmd args. None)\<rparr>"

definition example_request :: "string \<Rightarrow> string \<Rightarrow> Request" where
  "example_request m p =
     \<lparr>Method = m, URL_Path = p, Body = ''ping'', BodyErr = Some ''unexpected EOF'',
      FormValue = (\<lambda>k. [])\<rparr>"

section \<open>Properties of the name table\<close>

subsection \<open>Decimal notation\<close>

lemma digit_char_not_minus: "d < 10 \<Longrightarrow> digit_char d \<noteq> CHR ''-''"
proof
  assume d: "d < 10" and e: "digit_char d = CHR ''-''"
  from d have "of_char (digit_char d) = 48 + d"
    by (simp add: digit_char_def)
  with e have "of_char (CHR ''-'') = 48 + d" by simp
  then show False by simp
qed

lemma digit_val_digit_char: "d < 10 \<Longrightarrow> digit_val (digit_char d) = d"
  by (simp add: digit_val_def digit_char_def)

lemma parse_digits_snoc: "parse_digits (s @ [c]) = 10 * parse_digits s + digit_val c"
  by (simp add: parse_digits_def)

lemma digits10_nonempty: "digits10 n \<noteq> []"
  by (subst digits10.simps) simp

lemma parse_digits10: "parse_digits (digits10 n) = n"
proof (induction n rule: digits10.induct)
  case (1 n)
  show ?case
  proof (cases "n < 10")
    case True
    then show ?thesis
      by (subst digits10.simps) (simp add: parse_digits_def digit_val_digit_char)
  next
    case False
    with 1 show ?thesis
      by (subst digits10.simps) (simp add: parse_digits_snoc digit_val_digit_char)
  qed
qed

lemma hd_digits10: "hd (digits10 n) \<noteq> CHR ''-''"
proof (induction n rule: digits10.induct)
  case (1 n)
  show ?case
  proof (cases "n < 10")
    case True
    then show ?thesis
      by (subst digits10.simps) (simp add: digit_char_not_minus)
  next
    case False
    with 1 digits10_nonempty [of "n div 10"] show ?thesis
      by (subst digits10.simps) simp
  qed
qed

lemma ParseInt_digits10: "ParseInt (digits10 n) = int n"
proof (cases "digits10 n")
  case Nil
  then show ?thesis using digits10_nonempty by simp
next
  case (Cons c cs)
  with hd_digits10 [of n] have "c \<noteq> CHR ''-''" by simp
  with Cons parse_digits10 [of n] show ?thesis by (simp add: ParseInt_def)
qed

lemma ParseInt_FormatInt: "ParseInt (FormatInt v) = v"
proof (cases "v < 0")
  case True
  then show ?thesis by (simp add: FormatInt_def ParseInt_def parse_digits10)
next
  case False
  then show ?thesis by (simp add: FormatInt_def ParseInt_digits10)
qed

subsection \<open>The three names and the fallback\<close>

lemmas String_unfold = String_def init_globals_def index_at_def slice_def
  discoPingPurpose_name_def word_sless_alt word_sle_eq

lemma String_0: "String init_globals 0 = (Inr ''Discovery'', init_globals)"
  by (simp add: String_unfold)

lemma String_1: "String init_globals 1 = (Inr ''Heartbeat'', init_globals)"
  by (simp add: String_unfold)

lemma String_2: "String init_globals 2 = (Inr ''CLI'', init_globals)"
  by (simp add: String_unfold)

lemma purpose_cases:
  fixes i :: discoPingPurpose
  assumes "0 \<le> sint i" "sint i < 3"
  shows "i = 0 \<or> i = 1 \<or> i = 2"
proof -
  from assms have "sint i = 0 \<or> sint i = 1 \<or> sint i = 2" by arith
  moreover have "word_of_int (sint i) = i" by simp
  ultimately show ?thesis by (metis word_of_int_0 word_of_int_1 word_of_int_numeral)
qed

lemma guard_iff:
  fixes i :: discoPingPurpose
  shows "(i <s 0 \<or> 3 \<le>s i) = (i \<noteq> 0 \<and> i \<noteq> 1 \<and> i \<noteq> 2)"
proof
  assume "i <s 0 \<or> 3 \<le>s i"
  then have "sint i < 0 \<or> 3 \<le> sint i" by (simp add: word_sless_alt word_sle_eq)
  then show "i \<noteq> 0 \<and> i \<noteq> 1 \<and> i \<noteq> 2" by auto
next
  assume ne: "i \<noteq> 0 \<and> i \<noteq> 1 \<and> i \<noteq> 2"
  show "i <s 0 \<or> 3 \<le>s i"
  proof (rule ccontr)
    assume "\<not> (i <s 0 \<or> 3 \<le>s i)"
    then have "0 \<le> sint i" "sint i < 3" by (simp_all add: word_sless_alt word_sle_eq)
    then have "i = 0 \<or> i = 1 \<or> i = 2" by (rule purpose_cases)
    with ne show False by simp
  qed
qed

lemma String_fallback:
  assumes "i <s 0 \<or> 3 \<le>s i"
  shows "String init_globals i =
    (Inr (''discoPingPurpose('' @ FormatInt (sint i) @ '')''), init_globals)"
  using assms by (simp add: String_def init_globals_def)

lemma index_init: "discoPingPurpose_index init_globals = [0, 9, 18, 21]"
  by (simp add: init_globals_def)

lemma String_frame: "snd (String g i) = g"
  by (simp add: String_def split: sum.splits)

text \<open>
  C1. The compile-time guard of the generated file accepts the three purpose constants
  exactly when they are Discovery = 0, Heartbeat = 1 and CLI = 2, and \<open>String\<close> renders
  these three values as "Discovery", "Heartbeat" and "CLI".
\<close>

theorem discoPingPurpose_ordinals_names:
  "stringer_guard pingDiscovery pingHeartbeat pingCLI =
     (pingDiscovery = 0 \<and> pingHeartbeat = 1 \<and> pingCLI = 2) \<and>
   fst (String init_globals 0) = Inr ''Discovery'' \<and>
   fst (String init_globals 1) = Inr ''Heartbeat'' \<and>
   fst (String init_globals 2) = Inr ''CLI''"
proof -
  have "stringer_guard pingDiscovery pingHeartbeat pingCLI =
     (pingDiscovery = 0 \<and> pingHeartbeat = 1 \<and> pingCLI = 2)"
    unfolding stringer_guard_def const_index_ok_def by auto
  then show ?thesis by (simp add: String_0 String_1 String_2)
qed

text \<open>
  C2. For every purpose value other than 0, 1 and 2, which are exactly the values that
  are negative or at least 3, \<open>String\<close> returns the fallback
  "discoPingPurpose(" followed by the decimal notation of the value and ")". The
  decimal notation reads back as the value, and the result is none of the three names.
\<close>

theorem String_unknown_purpose:
  assumes "i \<noteq> 0 \<and> i \<noteq> 1 \<and> i \<noteq> 2"
  shows "(sint i < 0 \<or> 3 \<le> sint i) \<and>
    fst (String init_globals i) = Inr (''discoPingPurpose('' @ FormatInt (sint i) @ '')'') \<and>
    ParseInt (FormatInt (sint i)) = sint i \<and>
    fst (String init_globals i) \<noteq> Inr ''Discovery'' \<and>
    fst (String init_globals i) \<noteq> Inr ''Heartbeat'' \<and>
    fst (String init_globals i) \<noteq> Inr ''CLI''"
proof -
  from assms have g: "i <s 0 \<or> 3 \<le>s i" by (simp add: guard_iff)
  then have "sint i < 0 \<or> 3 \<le> sint i" by (simp add: word_sless_alt word_sle_eq)
  moreover from g have
    "fst (String init_globals i) = Inr (''discoPingPurpose('' @ FormatInt (sint i) @ '')'')"
    by (simp add: String_fallback)
  ultimately show ?thesis by (simp add: ParseInt_FormatInt)
qed

theorem String_unknown_purpose_witness:
  "((-5 :: discoPingPurpose) \<noteq> 0 \<and> (-5 :: discoPingPurpose) \<noteq> 1 \<and> (-5 :: discoPingPurpose) \<noteq> 2) \<and>
   fst (String init_globals (-5)) = Inr ''discoPingPurpose(-5)'' \<and>
   ((3 :: discoPingPurpose) \<noteq> 0 \<and> (3 :: discoPingPurpose) \<noteq> 1 \<and> (3 :: discoPingPurpose) \<noteq> 2) \<and>
   fst (String init_globals 3) = Inr ''discoPingPurpose(3)''"
proof -
  have a: "(-5 :: discoPingPurpose) \<noteq> 0 \<and> (-5 :: discoPingPurpose) \<noteq> 1 \<and> (-5 :: discoPingPurpose) \<noteq> 2"
    by simp
  have b: "(3 :: discoPingPurpose) \<noteq> 0 \<and> (3 :: discoPingPurpose) \<noteq> 1 \<and> (3 :: discoPingPurpose) \<noteq> 2"
    by simp
  have "FormatInt (- 5) = ''-5''" "FormatInt 3 = ''3''"
    by (simp_all add: FormatInt_def digits10.simps digit_char_def char_of_def bit_Suc_0_iff)
  with String_unknown_purpose [OF a] String_unknown_purpose [OF b] a b show ?thesis
    by simp
qed

text \<open>
  C8. \<open>String\<close> never fails a bounds check. It returns a string for every value, and
  when the range guard lets a value through, that value is 0, 1 or 2, adding one does
  not wrap, both table reads are in range, and the two entries are ordered and at
  most 21, the length of the name string.
\<close>

theorem String_in_bounds:
  "(\<exists>s. fst (String init_globals i) = Inr s) \<and>
   length discoPingPurpose_name = 21 \<and>
   (\<not> (i <s 0 \<or> 3 \<le>s i) \<longrightarrow>
      0 \<le> sint i \<and> sint i \<le> 2 \<and> sint (i + 1) = sint i + 1 \<and>
      (\<exists>lo hi. index_at (discoPingPurpose_index init_globals) (sint i) = Inr lo \<and>
         index_at (discoPingPurpose_index init_globals) (sint (i + 1)) = Inr hi \<and>
         unat lo \<le> unat hi \<and> unat hi \<le> 21))"
proof (cases "i <s 0 \<or> 3 \<le>s i")
  case True
  then show ?thesis by (simp add: String_fallback discoPingPurpose_name_def)
next
  case False
  then have "i = 0 \<or> i = 1 \<or> i = 2" using guard_iff [of i] by blast
  then show ?thesis
  proof (elim disjE)
    assume "i = 0"
    then show ?thesis
      by (simp add: String_0 discoPingPurpose_name_def index_init index_at_def)
  next
    assume "i = 1"
    then show ?thesis
      by (simp add: String_1 discoPingPurpose_name_def index_init index_at_def)
  next
    assume "i = 2"
    then show ?thesis
      by (simp add: String_2 discoPingPurpose_name_def index_init index_at_def)
  qed
qed

theorem String_in_bounds_witness:
  "\<not> ((2 :: discoPingPurpose) <s 0 \<or> 3 \<le>s (2 :: discoPingPurpose)) \<and>
   sint ((2 :: discoPingPurpose) + 1) = 3 \<and>
   (\<exists>lo hi. index_at (discoPingPurpose_index init_globals) 2 = Inr lo \<and>
      index_at (discoPingPurpose_index init_globals) 3 = Inr hi \<and>
      unat lo \<le> unat hi \<and> unat hi \<le> 21)"
proof -
  have g: "\<not> ((2 :: discoPingPurpose) <s 0 \<or> 3 \<le>s (2 :: discoPingPurpose))"
    by (simp add: word_sless_alt word_sle_eq)
  with String_in_bounds [of 2] show ?thesis by (simp add: index_init)
qed

section \<open>Properties of the c2n handler\<close>

subsection \<open>Response writers\<close>

lemma Written_Write: "Written (Write w c) = Written w @ [c]"
  by (simp add: Write_def WriteHeader_def Let_def split: option.splits)

lemma Written_WriteHeader: "Written (WriteHeader w code) = Written w"
  by (simp add: WriteHeader_def split: option.splits)

lemma Written_Header_Set: "Written (Header_Set w k v) = Written w"
  by (simp add: Header_Set_def)

lemma WroteHeader_Header_Set: "WroteHeader (Header_Set w k v) = WroteHeader w"
  by (simp add: Header_Set_def)

lemma WroteHeader_WriteHeader_None:
  "WroteHeader w = None \<Longrightarrow> WroteHeader (WriteHeader w code) = Some (code, Header w)"
  by (simp add: WriteHeader_def)

lemma WroteHeader_Write_None:
  "WroteHeader w = None \<Longrightarrow> WroteHeader (Write w c) = Some (200, Header w)"
  by (simp add: Write_def WriteHeader_def Let_def)

lemma WroteHeader_Write_Some:
  "WroteHeader w = Some p \<Longrightarrow> WroteHeader (Write w c) = Some p"
  by (simp add: Write_def WriteHeader_def Let_def)

lemma Written_http_Error: "Written (http_Error w msg code) = Written w @ [Bytes (msg @ newline)]"
  by (simp add: http_Error_def Let_def Written_Write Written_WriteHeader Written_Header_Set)

lemma WroteHeader_http_Error:
  "WroteHeader w = None \<Longrightarrow>
     WroteHeader (http_Error w msg code) =
       Some (code, (Header w)(''Content-Type'' \<mapsto> ''text/plain; charset=utf-8'',
                              ''X-Content-Type-Options'' \<mapsto> ''nosniff''))"
  by (simp add: http_Error_def Let_def WroteHeader_Write_Some WroteHeader_WriteHeader_None
      WroteHeader_Header_Set) (simp add: Header_Set_def)

lemma Written_writeJSON: "Written (writeJSON w v) = Written w @ [JSON v]"
  by (simp add: writeJSON_def Written_Write Written_Header_Set)

subsection \<open>The branches of \<open>handleC2N\<close>\<close>

lemma handleC2N_echo:
  "URL_Path r = ''/echo'' \<Longrightarrow> handleC2N b sys r w = (Write w (Bytes (Body r)), [])"
  by (simp add: handleC2N_def ReadAll_def)

lemma handleC2N_update:
  "URL_Path r = ''/update'' \<Longrightarrow> handleC2N b sys r w = handleC2NUpdate sys r w"
  by (simp add: handleC2N_def)

lemma handleC2N_flush:
  "URL_Path r = ''/logtail/flush'' \<Longrightarrow>
     handleC2N b sys r w =
       (if Method r \<noteq> ''POST'' then (http_Error w ''bad method'' 405, [])
        else if TryFlushLogs b then (WriteHeader w 204, [CallTryFlushLogs])
        else (http_Error w ''no log flusher wired up'' 500, [CallTryFlushLogs]))"
  by (simp add: handleC2N_def)

lemma handleC2N_metrics:
  "URL_Path r = ''/debug/metrics'' \<Longrightarrow>
     handleC2N b sys r w =
       (Write (Header_Set w ''Content-Type'' ''text/plain'')
          (Bytes (WritePrometheusExpositionFormat sys)), [])"
  by (simp add: handleC2N_def)

lemma handleC2N_usernames:
  "URL_Path r = ''/ssh/usernames'' \<Longrightarrow>
     handleC2N b sys r w =
       (case (if Method r = ''POST'' then Decode_Request sys r else Inr (zero_Request sys)) of
          Inl err \<Rightarrow> (http_Error w err 400, [])
        | Inr req \<Rightarrow>
            (case getSSHUsernames b req of
               Inl err \<Rightarrow> (http_Error w err 500, [])
             | Inr res \<Rightarrow> (writeJSON w (JSSHUsernames res), [])))"
  by (simp add: handleC2N_def)

lemma handleC2N_unknown:
  assumes "URL_Path r \<notin> {''/echo'', ''/update'', ''/logtail/flush'', ''/debug/goroutines'',
             ''/debug/prefs'', ''/debug/metrics'', ''/debug/component-logging'',
             ''/debug/logheap'', ''/ssh/usernames'', ''/sockstats''}"
  shows "handleC2N b sys r w = (http_Error w ''unknown c2n path'' 400, [])"
proof -
  from assms have
    "URL_Path r \<noteq> ''/echo''" "URL_Path r \<noteq> ''/update''" "URL_Path r \<noteq> ''/logtail/flush''"
    "URL_Path r \<noteq> ''/debug/goroutines''" "URL_Path r \<noteq> ''/debug/prefs''"
    "URL_Path r \<noteq> ''/debug/metrics''" "URL_Path r \<noteq> ''/debug/component-logging''"
    "URL_Path r \<noteq> ''/debug/logheap''" "URL_Path r \<noteq> ''/ssh/usernames''"
    "URL_Path r \<noteq> ''/sockstats''"
    by blast+
  then show ?thesis
    unfolding handleC2N_def by (simp only: if_False)
qed

subsection \<open>The steps of an update\<close>









text \<open>
  C10. For a request with path \<open>/echo\<close>, whatever its method, \<open>handleC2N\<close> writes
  exactly the bytes that the request body delivers, whether or not reading the body
  ends in an error, and nothing else: what is written is what was read, in one
  \<open>Write\<close>, with the implied status 200 on a fresh response and no call to the
  backend.
\<close>

theorem handleC2N_echo_identity:
  assumes "URL_Path r = ''/echo''"
  shows "Written (fst (handleC2N b sys r w)) = Written w @ [Bytes (fst (ReadAll r))] \<and>
    fst (ReadAll r) = Body r \<and>
    Written (fst (handleC2N b sys r NewResponseWriter)) = [Bytes (Body r)] \<and>
    map_option fst (WroteHeader (fst (handleC2N b sys r NewResponseWriter))) = Some 200 \<and>
    snd (handleC2N b sys r w) = []"
proof -
  have run: "handleC2N b sys r w' = (Write w' (Bytes (Body r)), [])" for w'
    using assms by (rule handleC2N_echo)
  have new: "WroteHeader NewResponseWriter = None" "Written NewResponseWriter = []"
    by (simp_all add: NewResponseWriter_def)
  show ?thesis
    by (simp add: run Written_Write ReadAll_def WroteHeader_Write_None new)
qed

theorem handleC2N_echo_identity_witness:
  "URL_Path (example_request ''DELETE'' ''/echo'') = ''/echo'' \<and>
   Written (fst (handleC2N example_backend example_platform
     (example_request ''DELETE'' ''/echo'') NewResponseWriter)) = [Bytes ''ping''] \<and>
   BodyErr (example_request ''DELETE'' ''/echo'') = Some ''unexpected EOF''"
proof -
  have p: "URL_Path (example_request ''DELETE'' ''/echo'') = ''/echo''"
    by (simp add: example_request_def)
  have "Written (fst (handleC2N example_backend example_platform
      (example_request ''DELETE'' ''/echo'') NewResponseWriter)) =
      [Bytes (Body (example_request ''DELETE'' ''/echo''))]"
    using handleC2N_echo_identity [OF p, of example_backend example_platform NewResponseWriter]
    by blast
  moreover have "Body (example_request ''DELETE'' ''/echo'') = ''ping''"
    "BodyErr (example_request ''DELETE'' ''/echo'') = Some ''unexpected EOF''"
    by (simp_all add: example_request_def)
  ultimately show ?thesis using p by simp
qed

subsection \<open>Dispatch on the URL path\<close>

lemma handleC2N_flush_POST:
  assumes "URL_Path r = ''/logtail/flush''" "Method r = ''POST''" "WroteHeader w = None"
  shows "snd (handleC2N b sys r w) = [CallTryFlushLogs] \<and>
    map_option fst (WroteHeader (fst (handleC2N b sys r w))) =
      Some (if TryFlushLogs b then 204 else 500)"
  using assms
  by (simp add: handleC2N_flush WroteHeader_WriteHeader_None WroteHeader_http_Error)

lemma handleC2N_flush_other:
  assumes "URL_Path r = ''/logtail/flush''" "Method r \<noteq> ''POST''"
  shows "handleC2N b sys r w = (http_Error w ''bad method'' 405, [])"
  using assms by (simp add: handleC2N_flush)

lemma handleC2N_usernames_ok:
  assumes "URL_Path r = ''/ssh/usernames''"
    and "(if Method r = ''POST'' then Decode_Request sys r else Inr (zero_Request sys)) = Inr req"
  shows "handleC2N b sys r w =
    (case getSSHUsernames b req of
       Inl err \<Rightarrow> (http_Error w err 500, [])
     | Inr res \<Rightarrow> (writeJSON w (JSSHUsernames res), []))"
  using assms by (simp add: handleC2N_usernames)

text \<open>
  C5. \<open>handleC2N\<close> hands each of the four functions to its own branch, on a fresh
  response:
  \<^item> \<open>/logtail/flush\<close> calls \<open>TryFlushLogs\<close>, once and only for a POST, and answers 204
    or 500 by its result; any other method is answered 405 without the call;
  \<^item> \<open>/debug/metrics\<close> writes the Prometheus exposition and calls nothing;
  \<^item> \<open>/update\<close> is handled by \<open>handleC2NUpdate\<close>;
  \<^item> \<open>/ssh/usernames\<close> looks the user names up for the decoded request (the zero
    request unless the method is POST) and writes them as JSON, or answers 500 with
    the lookup's error;
  \<^item> a path that is none of the ten paths of the switch is answered with status 400
    and the line "unknown c2n path", and nothing is called.
\<close>

theorem handleC2N_dispatch:
  assumes "WroteHeader w = None"
  shows "(URL_Path r = ''/logtail/flush'' \<longrightarrow>
       (Method r = ''POST'' \<longrightarrow>
          snd (handleC2N b sys r w) = [CallTryFlushLogs] \<and>
          map_option fst (WroteHeader (fst (handleC2N b sys r w))) =
            Some (if TryFlushLogs b then 204 else 500)) \<and>
       (Method r \<noteq> ''POST'' \<longrightarrow>
          handleC2N b sys r w = (http_Error w ''bad method'' 405, []))) \<and>
    (URL_Path r = ''/debug/metrics'' \<longrightarrow>
       Written (fst (handleC2N b sys r w)) =
         Written w @ [Bytes (WritePrometheusExpositionFormat sys)] \<and>
       snd (handleC2N b sys r w) = []) \<and>
    (URL_Path r = ''/update'' \<longrightarrow> handleC2N b sys r w = handleC2NUpdate sys r w) \<and>
    (URL_Path r = ''/ssh/usernames'' \<longrightarrow>
       (\<forall>req. (if Method r = ''POST'' then Decode_Request sys r else Inr (zero_Request sys)) =
                Inr req \<longrightarrow>
          handleC2N b sys r w =
            (case getSSHUsernames b req of
               Inl err \<Rightarrow> (http_Error w err 500, [])
             | Inr res \<Rightarrow> (writeJSON w (JSSHUsernames res), [])))) \<and>
    (URL_Path r \<notin> {''/echo'', ''/update'', ''/logtail/flush'', ''/debug/goroutines'',
         ''/debug/prefs'', ''/debug/metrics'', ''/debug/component-logging'',
         ''/debug/logheap'', ''/ssh/usernames'', ''/sockstats''} \<longrightarrow>
       map_option fst (WroteHeader (fst (handleC2N b sys r w))) = Some 400 \<and>
       Written (fst (handleC2N b sys r w)) = Written w @ [Bytes (''unknown c2n path'' @ newline)] \<and>
       snd (handleC2N b sys r w) = [])"
proof (intro conjI impI allI)
  assume "URL_Path r = ''/logtail/flush''" "Method r = ''POST''"
  from handleC2N_flush_POST [OF this assms, where b = b and sys = sys]
  show "snd (handleC2N b sys r w) = [CallTryFlushLogs]"
    and "map_option fst (WroteHeader (fst (handleC2N b sys r w))) =
      Some (if TryFlushLogs b then 204 else 500)"
    by simp_all
next
  assume "URL_Path r = ''/logtail/flush''" "Method r \<noteq> ''POST''"
  then show "handleC2N b sys r w = (http_Error w ''bad method'' 405, [])"
    by (rule handleC2N_flush_other)
next
  assume p: "URL_Path r = ''/debug/metrics''"
  then show "Written (fst (handleC2N b sys r w)) =
      Written w @ [Bytes (WritePrometheusExpositionFormat sys)]"
    by (simp add: handleC2N_metrics Written_Write Written_Header_Set)
  from p show "snd (handleC2N b sys r w) = []"
    by (simp add: handleC2N_metrics)
next
  assume "URL_Path r = ''/update''"
  then show "handleC2N b sys r w = handleC2NUpdate sys r w"
    by (rule handleC2N_update)
next
  fix req
  assume "URL_Path r = ''/ssh/usernames''"
    and "(if Method r = ''POST'' then Decode_Request sys r else Inr (zero_Request sys)) = Inr req"
  then show "handleC2N b sys r w =
      (case getSSHUsernames b req of
         Inl err \<Rightarrow> (http_Error w err 500, [])
       | Inr res \<Rightarrow> (writeJSON w (JSSHUsernames res), []))"
    by (rule handleC2N_usernames_ok)
next
  assume "URL_Path r \<notin> {''/echo'', ''/update'', ''/logtail/flush'', ''/debug/goroutines'',
         ''/debug/prefs'', ''/debug/metrics'', ''/debug/component-logging'',
         ''/debug/logheap'', ''/ssh/usernames'', ''/sockstats''}"
  then have run: "handleC2N b sys r w = (http_Error w ''unknown c2n path'' 400, [])"
    by (rule handleC2N_unknown)
  show "map_option fst (WroteHeader (fst (handleC2N b sys r w))) = Some 400"
    by (simp add: run WroteHeader_http_Error [OF assms])
  show "Written (fst (handleC2N b sys r w)) = Written w @ [Bytes (''unknown c2n path'' @ newline)]"
    by (simp add: run Written_http_Error)
  show "snd (handleC2N b sys r w) = []"
    by (simp add: run)
qed

theorem handleC2N_dispatch_witness:
  "WroteHeader (NewResponseWriter :: (unit, string list) ResponseWriter) = None \<and>
   snd (handleC2N example_backend example_platform
     (example_request ''POST'' ''/logtail/flush'') NewResponseWriter) = [CallTryFlushLogs] \<and>
   map_option fst (WroteHeader (fst (handleC2N example_backend example_platform
     (example_request ''POST'' ''/logtail/flush'') NewResponseWriter))) = Some 204 \<and>
   Written (fst (handleC2N example_backend example_platform
     (example_request ''GET'' ''/debug/metrics'') NewResponseWriter)) =
     [Bytes ''# TYPE x counter''] \<and>
   handleC2N example_backend example_platform
     (example_request ''POST'' ''/update'') NewResponseWriter =
     handleC2NUpdate example_platform (example_request ''POST'' ''/update'') NewResponseWriter \<and>
   Written (fst (handleC2N example_backend example_platform
     (example_request ''GET'' ''/ssh/usernames'') NewResponseWriter)) =
     [JSON (JSSHUsernames [''root''])] \<and>
   map_option fst (WroteHeader (fst (handleC2N example_backend example_platform
     (example_request ''GET'' ''/debug/unknown'') NewResponseWriter))) = Some 400 \<and>
   Written (fst (handleC2N example_backend example_platform
     (example_request ''GET'' ''/debug/unknown'') NewResponseWriter)) =
     [Bytes (''unknown c2n path'' @ newline)]"
proof -
  let ?w = "NewResponseWriter :: (unit, string list) ResponseWriter"
  have new: "WroteHeader ?w = None" and nw: "Written ?w = []"
    by (simp_all add: NewResponseWriter_def)
  note d = handleC2N_dispatch [OF new, of _ example_backend example_platform]
  have flush: "URL_Path (example_request ''POST'' ''/logtail/flush'') = ''/logtail/flush''"
    "Method (example_request ''POST'' ''/logtail/flush'') = ''POST''"
    "TryFlushLogs example_backend"
    by (simp_all add: example_request_def example_backend_def)
  have metrics: "URL_Path (example_request ''GET'' ''/debug/metrics'') = ''/debug/metrics''"
    "WritePrometheusExpositionFormat example_platform = ''# TYPE x counter''"
    by (simp_all add: example_request_def example_platform_def)
  have update: "URL_Path (example_request ''POST'' ''/update'') = ''/update''"
    by (simp add: example_request_def)
  have names: "URL_Path (example_request ''GET'' ''/ssh/usernames'') = ''/ssh/usernames''"
    "(if Method (example_request ''GET'' ''/ssh/usernames'') = ''POST''
      then Decode_Request example_platform (example_request ''GET'' ''/ssh/usernames'')
      else Inr (zero_Request example_platform)) = Inr ()"
    "getSSHUsernames example_backend () = Inr [''root'']"
    by (simp_all add: example_request_def example_platform_def example_backend_def)
  have unknown: "URL_Path (example_request ''GET'' ''/debug/unknown'') \<notin>
      {''/echo'', ''/update'', ''/logtail/flush'', ''/debug/goroutines'',
       ''/debug/prefs'', ''/debug/metrics'', ''/debug/component-logging'',
       ''/debug/logheap'', ''/ssh/usernames'', ''/sockstats''}"
    by (simp add: example_request_def)
  have 1: "snd (handleC2N example_backend example_platform
      (example_request ''POST'' ''/logtail/flush'') ?w) = [CallTryFlushLogs]"
    and 2: "map_option fst (WroteHeader (fst (handleC2N example_backend example_platform
      (example_request ''POST'' ''/logtail/flush'') ?w))) = Some 204"
    using d [of "example_request ''POST'' ''/logtail/flush''"] flush by simp_all
  have 3: "Written (fst (handleC2N example_backend example_platform
      (example_request ''GET'' ''/debug/metrics'') ?w)) = [Bytes ''# TYPE x counter'']"
    using d [of "example_request ''GET'' ''/debug/metrics''"] metrics nw by simp
  have 4: "handleC2N example_backend example_platform (example_request ''POST'' ''/update'') ?w =
      handleC2NUpdate example_platform (example_request ''POST'' ''/update'') ?w"
    using d [of "example_request ''POST'' ''/update''"] update by blast
  have "handleC2N example_backend example_platform
      (example_request ''GET'' ''/ssh/usernames'') ?w =
      (case getSSHUsernames example_backend () of
         Inl err \<Rightarrow> (http_Error ?w err 500, [])
       | Inr res \<Rightarrow> (writeJSON ?w (JSSHUsernames res), []))"
    using d [of "example_request ''GET'' ''/ssh/usernames''"] names(1,2) by blast
  then have 5: "Written (fst (handleC2N example_backend example_platform
      (example_request ''GET'' ''/ssh/usernames'') ?w)) = [JSON (JSSHUsernames [''root''])]"
    by (simp add: names(3) Written_writeJSON nw)
  have 6: "map_option fst (WroteHeader (fst (handleC2N example_backend example_platform
      (example_request ''GET'' ''/debug/unknown'') ?w))) = Some 400"
    and 7: "Written (fst (handleC2N example_backend example_platform
      (example_request ''GET'' ''/debug/unknown'') ?w)) =
      [Bytes (''unknown c2n path'' @ newline)]"
    using d [of "example_request ''GET'' ''/debug/unknown''"] unknown nw by simp_all
  from new 1 2 3 4 5 6 7 show ?thesis by blast
qed

end
